theory Spec2Isabelle
  imports Complex_Main "HOL-Library.Char_ord" "HOL-Library.List_Lexorder"
begin

section \<open>Strings\<close>

text \<open>
  A Python \<open>str\<close> is a sequence of code points. The model works over the code points
  below 256 (Latin-1), one \<^typ>\<open>char\<close> each, which covers the seeded product names
  (\<open>Guaran\<close>\<open>a\<close> with an acute accent is \<open>CHR 0xE1\<close>).

  Two different case foldings meet in \<open>interact\<close>:
  \<^item> \<open>str.lower()\<close> of Python (\<open>main.py\<close>, line 130) folds every cased code point. Below 256
    these are \<open>A\<close>..\<open>Z\<close> and \<open>0xC0\<close>..\<open>0xDE\<close> without the multiplication sign \<open>0xD7\<close>;
    each maps to the code point 32 above it.
  \<^item> \<open>Product.name.ilike(name)\<close> (line 124) is rendered for SQLite as
    \<open>lower(product.name) LIKE lower(?)\<close>; both \<open>lower\<close> and \<open>LIKE\<close> of SQLite fold the
    letters \<open>A\<close>..\<open>Z\<close> only.
\<close>

definition py_lower_char :: "char \<Rightarrow> char" where
  "py_lower_char c =
     (let n = (of_char c :: nat) in
      if (65 \<le> n \<and> n \<le> 90) \<or> (192 \<le> n \<and> n \<le> 222 \<and> n \<noteq> 215)
      then char_of (n + 32) else c)"

definition py_lower :: "string \<Rightarrow> string" where
  "py_lower s = map py_lower_char s"

definition sqlite_lower_char :: "char \<Rightarrow> char" where
  "sqlite_lower_char c =
     (let n = (of_char c :: nat) in if 65 \<le> n \<and> n \<le> 90 then char_of (n + 32) else c)"

definition sqlite_lower :: "string \<Rightarrow> string" where
  "sqlite_lower s = map sqlite_lower_char s"

text \<open>
  \<open>str.strip()\<close> removes leading and trailing white space; below 256 the white-space
  code points of Python are 9..13, 28..32, 133 and 160.
\<close>

definition py_isspace :: "char \<Rightarrow> bool" where
  "py_isspace c =
     (let n = (of_char c :: nat) in
      (9 \<le> n \<and> n \<le> 13) \<or> (28 \<le> n \<and> n \<le> 32) \<or> n = 133 \<or> n = 160)"

definition strip :: "string \<Rightarrow> string" where
  "strip s = rev (dropWhile py_isspace (rev (dropWhile py_isspace s)))"

text \<open>
  \<open>needle in hay\<close> on strings: \<open>needle\<close> occurs at some position of \<open>hay\<close>.
\<close>

fun str_in :: "string \<Rightarrow> string \<Rightarrow> bool" where
  "str_in needle [] = (needle = [])"
| "str_in needle (c # cs) = (take (length needle) (c # cs) = needle \<or> str_in needle cs)"

text \<open>
  The comparison of the \<open>LIKE\<close> operator of SQLite, pattern first: \<open>%\<close> matches any run of
  characters, the empty one too, \<open>_\<close> matches any one character, every other character
  matches itself up to the case of the letters \<open>A\<close>..\<open>Z\<close>. There is no escape character
  unless the statement gives one, and \<open>ilike\<close> at line 124 gives none.
\<close>

fun sqlite_like :: "string \<Rightarrow> string \<Rightarrow> bool" where
  "sqlite_like [] [] = True"
| "sqlite_like [] (c # cs) = False"
| "sqlite_like (p # ps) [] = (p = CHR ''%'' \<and> sqlite_like ps [])"
| "sqlite_like (p # ps) (c # cs) =
     (if p = CHR ''%'' then sqlite_like ps (c # cs) \<or> sqlite_like (p # ps) cs
      else (p = CHR ''_'' \<or> sqlite_lower_char p = sqlite_lower_char c) \<and> sqlite_like ps cs)"

text \<open>
  SQLite hands both operands of \<open>LIKE\<close> to that comparison as C strings, so each ends at
  its first NUL character (\<open>c_string\<close>). Before it compares, it refuses a pattern of more
  than 50000 bytes with the error \<open>LIKE or GLOB pattern too complex\<close>; the bytes are those
  of the UTF-8 encoding, one for a code point below 128 and two for the others below 256
  (\<open>utf8_length\<close>).
\<close>

definition c_string :: "string \<Rightarrow> string" where
  "c_string s = takeWhile (\<lambda>c. c \<noteq> CHR 0x00) s"

definition utf8_length :: "string \<Rightarrow> nat" where
  "utf8_length s = sum_list (map (\<lambda>c. if (of_char c :: nat) < 128 then 1 else 2) s)"


section \<open>Data model (\<open>models.py\<close>)\<close>

text \<open>
  \<open>Product\<close> and \<open>Transaction\<close> are the two tables. The field \<open>id\<close> of each is written
  \<open>id_P\<close> and \<open>id_T\<close>, and \<open>Transaction.quantity\<close> is \<open>quantity_T\<close>. Prices are Python floats:
  the type \<open>'f\<close> stands for them and the product \<open>price * quantity\<close> of a float and an integer
  is a parameter of the model (\<open>float_mul\<close> below), so that nothing proved here depends on
  how floating-point multiplication rounds. Timestamps are values of a type \<open>'t\<close>.
\<close>

record 'f Product =
  id_P :: int
  name :: string
  price :: 'f
  stock :: int

record ('f, 't) Transaction =
  id_T :: int
  product_id :: int
  quantity_T :: int
  total_price :: 'f
  timestamp :: 't

text \<open>
  The store: the rows of both tables in the order of their keys, which is the order in
  which SQLite scans a table.
\<close>

record ('f, 't) store =
  products :: "'f Product list"
  transactions :: "('f, 't) Transaction list"


section \<open>Intents (\<open>services/ai_parser.py\<close>)\<close>

datatype IntentData =
    PurchaseIntent (product_name: string) (quantity: int)
  | UnknownIntent (reason: string)

text \<open>\<open>UserIntent\<close>: \<open>type: str\<close> and \<open>data: Optional[Union[PurchaseIntent, UnknownIntent]]\<close>.\<close>

record UserIntent =
  type :: string
  data :: "IntentData option"

text \<open>
  Exceptions raised inside the \<open>try\<close> block of \<open>parse_user_message\<close>: the
  \<open>ValidationError\<close> of pydantic with its text, or any other subclass of \<open>Exception\<close> with
  its class name and its text. The signals of the interpreter that derive from
  \<open>BaseException\<close> only (\<open>KeyboardInterrupt\<close>, \<open>SystemExit\<close>) are not failures of a
  collaborator; no handler of this code catches them and they are not modelled.
\<close>

datatype exn = ValidationError string | OtherException string string


section \<open>External collaborators\<close>

text \<open>
  What the code calls and does not define is a parameter of the model:
  \<^item> \<open>generate_content message\<close>: the outcome of \<open>model.generate_content(prompt).text\<close> for the
    fixed prompt built around \<open>message\<close> (lines 64 to 88): the response text, or the
    exception raised by the call or by reading \<open>.text\<close>;
  \<^item> \<open>json_loads\<close>: \<open>json.loads\<close> on a text that starts with an opening brace: a dictionary
    with values of a type \<open>'j\<close>, or the exception \<open>JSONDecodeError\<close>;
  \<^item> \<open>validate_str\<close> and \<open>validate_data\<close>: the validation by pydantic of one value
    against the annotation of the field \<open>type\<close> and of the field \<open>data\<close>; \<open>None\<close> when the
    value is refused;
  \<^item> \<open>validation_message\<close>: the text of the \<open>ValidationError\<close> for a refused dictionary;
  \<^item> \<open>float_mul\<close>: the product of a float and an integer;
  \<^item> \<open>now\<close>: \<open>datetime.now()\<close> at the time of the request.
\<close>

record ('f, 't, 'j) world =
  generate_content :: "string \<Rightarrow> exn + string"
  json_loads :: "string \<Rightarrow> exn + (string \<rightharpoonup> 'j)"
  validate_str :: "'j \<Rightarrow> string option"
  validate_data :: "'j \<Rightarrow> IntentData option option"
  validation_message :: "(string \<rightharpoonup> 'j) \<Rightarrow> string"
  float_mul :: "'f \<Rightarrow> int \<Rightarrow> 'f"
  now :: 't


section \<open>The intent parser (\<open>parse_user_message\<close>)\<close>

text \<open>
  \<open>re.search(r"\{.*\}", text, re.DOTALL)\<close>. The search tries each start position from the
  left. At a position the pattern needs an opening brace, then \<open>.*\<close> takes characters
  greedily (every character, line breaks included, under \<open>DOTALL\<close>) and gives them back
  one at a time until a closing brace follows. \<open>greedy_close s\<close> is the text matched by
  \<open>.*\}\<close> at the start of \<open>s\<close>: one more character for \<open>.*\<close> is tried before the closing
  brace is.
\<close>

fun greedy_close :: "string \<Rightarrow> string option" where
  "greedy_close [] = None"
| "greedy_close (c # cs) =
     (case greedy_close cs of
        Some m \<Rightarrow> Some (c # m)
      | None \<Rightarrow> if c = CHR ''}'' then Some [c] else None)"

definition match_at :: "string \<Rightarrow> string option" where
  "match_at s =
     (case s of
        [] \<Rightarrow> None
      | c # cs \<Rightarrow> if c = CHR ''{'' then map_option ((#) c) (greedy_close cs) else None)"

fun re_search :: "string \<Rightarrow> string option" where
  "re_search [] = None"
| "re_search (c # cs) =
     (case match_at (c # cs) of Some m \<Rightarrow> Some m | None \<Rightarrow> re_search cs)"

text \<open>
  \<open>UserIntent(**kwargs)\<close>: both fields are declared without a default (lines 49 and 53),
  so pydantic 2 (the version whose \<open>model_dump\<close> \<open>main.py\<close> calls) requires both keys; each
  value is then validated against the annotation of its field.
\<close>

definition UserIntent_init ::
  "('f, 't, 'j) world \<Rightarrow> (string \<rightharpoonup> 'j) \<Rightarrow> exn + UserIntent" where
  "UserIntent_init w kwargs =
     (case (kwargs ''type'', kwargs ''data'') of
        (Some tv, Some dv) \<Rightarrow>
          (case (validate_str w tv, validate_data w dv) of
             (Some t, Some d) \<Rightarrow> Inr \<lparr>type = t, data = d\<rparr>
           | _ \<Rightarrow> Inl (ValidationError (validation_message w kwargs)))
      | _ \<Rightarrow> Inl (ValidationError (validation_message w kwargs)))"

text \<open>The body of the \<open>try\<close> block, lines 64 to 97.\<close>

definition parse_try :: "('f, 't, 'j) world \<Rightarrow> string \<Rightarrow> exn + UserIntent" where
  "parse_try w message =
     (case generate_content w message of
        Inl e \<Rightarrow> Inl e
      | Inr text \<Rightarrow>
          (case (case re_search text of
                   Some m \<Rightarrow> json_loads w m
                 | None \<Rightarrow> Inr Map.empty) of
             Inl e \<Rightarrow> Inl e
           | Inr parsed_json \<Rightarrow> UserIntent_init w parsed_json))"

text \<open>
  The two handlers, lines 101 to 113. Each returns the intent of type \<open>unknown\<close> with an
  \<open>UnknownIntent\<close> whose reason is \<open>Erro de validacao: \<close> (with a cedilla and a tilde,
  the code points \<open>0xE7\<close> and \<open>0xE3\<close>) followed by the text of the validation error, or
  \<open>Erro com Gemini: \<close> followed by the class name of the exception, a colon, a space and
  its text.
\<close>

definition parse_user_message :: "('f, 't, 'j) world \<Rightarrow> string \<Rightarrow> exn + UserIntent" where
  "parse_user_message w message =
     (case parse_try w message of
        Inr intent \<Rightarrow> Inr intent
      | Inl (ValidationError e) \<Rightarrow>
          Inr \<lparr>type = ''unknown'',
               data = Some (UnknownIntent
                 (''Erro de valida'' @ [CHR 0xE7, CHR 0xE3] @ ''o: '' @ e))\<rparr>
      | Inl (OtherException cls e) \<Rightarrow>
          Inr \<lparr>type = ''unknown'',
               data = Some (UnknownIntent (''Erro com Gemini: '' @ cls @ '': '' @ e))\<rparr>)"


section \<open>The purchase workflow (\<open>interact\<close>, \<open>main.py\<close>)\<close>

text \<open>
  The \<open>detail\<close> of an \<open>HTTPException\<close> is one of five fixed messages, three of them with a
  value inserted: \<open>InvalidQuantity\<close> (line 120), \<open>ProductNotFound name\<close> (line 134),
  \<open>InsufficientStock available\<close> (line 139), \<open>IntentUnrecognized reason\<close> (line 163) and
  \<open>Internal\<close> (line 167).
\<close>

datatype detail =
    InvalidQuantity
  | ProductNotFound string
  | InsufficientStock int
  | IntentUnrecognized string
  | Internal

text \<open>
  A response: the static payloads of \<open>/\<close> and \<open>/interface\<close>, the two listings, the
  dictionary of a completed purchase, an \<open>HTTPException\<close> with its status code, or an
  exception that \<open>interact\<close> does not catch.

  The dictionary of a completed purchase (lines 152 to 158) is built after \<open>commit\<close>, which
  expires both instances. Reading \<open>product.name\<close> for the message reloads the product, so
  \<open>stock_restante\<close> and \<open>product.model_dump()\<close> show the stored row. Nothing reads an
  attribute of \<open>transaction\<close>, so \<open>transaction.model_dump()\<close> is the empty dictionary. A
  dumped row is \<open>Some\<close> of the row, the empty dictionary is \<open>None\<close>. The \<open>status\<close> is
  constant and the \<open>message\<close> is a rendering of the quantity, the name and the total.
\<close>

datatype ('f, 't) response =
    Welcome
  | Interface
  | ProductList "'f Product list"
  | TransactionList "('f, 't) Transaction list"
  | Success int "'f Product option" "('f, 't) Transaction option"
  | HTTPException nat detail
  | Unhandled exn

text \<open>
  Line 124: the first row, in the order of the table, whose name the pattern \<open>name\<close>
  matches. \<open>LIKE\<close> is evaluated on the first row already, so on a table that is not empty
  a pattern that is too long raises \<open>OperationalError\<close>.
\<close>

definition exact_match :: "string \<Rightarrow> 'f Product list \<Rightarrow> exn + 'f Product option" where
  "exact_match nm ps =
     (if ps \<noteq> [] \<and> 50000 < utf8_length (sqlite_lower nm)
      then Inl (OtherException ''OperationalError'' ''LIKE or GLOB pattern too complex'')
      else Inr (find (\<lambda>p. sqlite_like (c_string (sqlite_lower nm))
                              (c_string (sqlite_lower (name p)))) ps))"

text \<open>
  Line 129: \<open>select(Product.name)\<close> reads the name column only, and SQLite answers it from
  the unique index on \<open>name\<close> (line 17 of \<open>models.py\<close>): the names come in ascending
  order of their bytes, which for UTF-8 is the order of their code points, and not in the
  order of the rows.
\<close>

definition select_names :: "'f Product list \<Rightarrow> string list" where
  "select_names ps = map name (sort_key name ps)"

text \<open>
  Lines 129 to 132: the loop over the stored names, left at the first name that
  contains the requested one; the row is then fetched by that name.
\<close>

fun similarity_search ::
  "string \<Rightarrow> string list \<Rightarrow> 'f Product list \<Rightarrow> 'f Product option" where
  "similarity_search nm [] ps = None"
| "similarity_search nm (p_name # rest) ps =
     (if str_in (py_lower nm) (py_lower p_name)
      then find (\<lambda>p. name p = p_name) ps
      else similarity_search nm rest ps)"

definition resolve :: "string \<Rightarrow> 'f Product list \<Rightarrow> exn + 'f Product option" where
  "resolve nm ps =
     (case exact_match nm ps of
        Inl e \<Rightarrow> Inl e
      | Inr (Some p) \<Rightarrow> Inr (Some p)
      | Inr None \<Rightarrow> Inr (similarity_search nm (select_names ps) ps))"

text \<open>
  The key SQLite gives a new row of a table with an integer primary key: one more than
  the largest key in the table, 1 for an empty table.
\<close>

definition next_id :: "int list \<Rightarrow> int" where
  "next_id ids = (case ids of [] \<Rightarrow> 1 | i # rest \<Rightarrow> fold max rest i + 1)"

text \<open>
  \<open>session.commit()\<close> at line 148: the changed attribute of the product is written to the
  row with its primary key, and the new transaction is inserted.
\<close>

definition commit ::
  "'f Product \<Rightarrow> ('f, 't) Transaction \<Rightarrow> ('f, 't) store \<Rightarrow> ('f, 't) store" where
  "commit product transaction st =
     st\<lparr>products :=
          map (\<lambda>r. if id_P r = id_P product then r\<lparr>stock := stock product\<rparr> else r)
            (products st),
        transactions := transactions st @ [transaction]\<rparr>"

text \<open>
  Lines 114 to 158, the branch of a purchase intent, on \<open>intent.data.product_name\<close> and
  \<open>intent.data.quantity\<close>. Every \<open>raise\<close>, and the error of the first query, is before the
  first change of the session, so the store is returned as it was. After \<open>commit\<close> the
  product is reloaded by its primary key.
\<close>

definition purchase ::
  "('f, 't, 'j) world \<Rightarrow> string \<Rightarrow> int \<Rightarrow> ('f, 't) store
     \<Rightarrow> ('f, 't) response \<times> ('f, 't) store" where
  "purchase w requested q st =
     (let nm = strip requested in
      if q \<le> 0 then (HTTPException 400 InvalidQuantity, st)
      else
        (case resolve nm (products st) of
           Inl e \<Rightarrow> (Unhandled e, st)
         | Inr None \<Rightarrow> (HTTPException 404 (ProductNotFound nm), st)
         | Inr (Some product) \<Rightarrow>
             if stock product < q
             then (HTTPException 400 (InsufficientStock (stock product)), st)
             else
               (let product' = product\<lparr>stock := stock product - q\<rparr>;
                    total = float_mul w (price product') q;
                    transaction =
                      \<lparr>id_T = next_id (map id_T (transactions st)),
                       product_id = id_P product', quantity_T = q,
                       total_price = total, timestamp = now w\<rparr>;
                    st' = commit product' transaction st
                in (Success (stock product')
                      (find (\<lambda>r. id_P r = id_P product') (products st')) None,
                    st'))))"

text \<open>Lines 113 to 167 on the parsed intent.\<close>

definition isinstance_PurchaseIntent :: "IntentData option \<Rightarrow> bool" where
  "isinstance_PurchaseIntent d = (case d of Some (PurchaseIntent n q) \<Rightarrow> True | _ \<Rightarrow> False)"

definition isinstance_UnknownIntent :: "IntentData option \<Rightarrow> bool" where
  "isinstance_UnknownIntent d = (case d of Some (UnknownIntent r) \<Rightarrow> True | _ \<Rightarrow> False)"

definition interact_intent ::
  "('f, 't, 'j) world \<Rightarrow> UserIntent \<Rightarrow> ('f, 't) store
     \<Rightarrow> ('f, 't) response \<times> ('f, 't) store" where
  "interact_intent w intent st =
     (if type intent = ''purchase'' \<and> isinstance_PurchaseIntent (data intent)
      then purchase w (product_name (the (data intent))) (quantity (the (data intent))) st
      else if type intent = ''unknown'' \<and> isinstance_UnknownIntent (data intent)
      then (HTTPException 400 (IntentUnrecognized (reason (the (data intent)))), st)
      else (HTTPException 500 Internal, st))"

text \<open>Line 109 and the rest of \<open>interact\<close>.\<close>

definition interact ::
  "('f, 't, 'j) world \<Rightarrow> string \<Rightarrow> ('f, 't) store
     \<Rightarrow> ('f, 't) response \<times> ('f, 't) store" where
  "interact w message st =
     (case parse_user_message w message of
        Inl e \<Rightarrow> (Unhandled e, st)
      | Inr intent \<Rightarrow> interact_intent w intent st)"

text \<open>The read endpoints, lines 46 to 98.\<close>

definition root :: "('f, 't) store \<Rightarrow> ('f, 't) response \<times> ('f, 't) store" where
  "root st = (Welcome, st)"

definition interface :: "('f, 't) store \<Rightarrow> ('f, 't) response \<times> ('f, 't) store" where
  "interface st = (Interface, st)"

definition list_products :: "('f, 't) store \<Rightarrow> ('f, 't) response \<times> ('f, 't) store" where
  "list_products st = (ProductList (products st), st)"

definition list_transactions :: "('f, 't) store \<Rightarrow> ('f, 't) response \<times> ('f, 't) store" where
  "list_transactions st = (TransactionList (transactions st), st)"

text \<open>
  One request to the API, and a sequence of requests served one after the other, each
  with the collaborators as they answer at that time.
\<close>

datatype request =
    GET_root
  | GET_interface
  | GET_products
  | GET_transactions
  | POST_interact string

fun serve ::
  "('f, 't, 'j) world \<Rightarrow> request \<Rightarrow> ('f, 't) store
     \<Rightarrow> ('f, 't) response \<times> ('f, 't) store" where
  "serve w GET_root st = root st"
| "serve w GET_interface st = interface st"
| "serve w GET_products st = list_products st"
| "serve w GET_transactions st = list_transactions st"
| "serve w (POST_interact message) st = interact w message st"

fun serve_all ::
  "(('f, 't, 'j) world \<times> request) list \<Rightarrow> ('f, 't) store \<Rightarrow> ('f, 't) store" where
  "serve_all [] st = st"
| "serve_all ((w, r) # rs) st = serve_all rs (snd (serve w r st))"

text \<open>The invariant of the data model: no product has a negative stock.\<close>

definition stock_nonneg :: "('f, 't) store \<Rightarrow> bool" where
  "stock_nonneg st = list_all (\<lambda>p. 0 \<le> stock p) (products st)"

section \<open>Example data\<close>

text \<open>
  The store after \<open>startup\<close> on an empty database (lines 37 to 41), with the keys SQLite
  gives the three rows. In the examples a price is an exact rational number and a
  timestamp is a number.
\<close>

definition coca_cola :: "rat Product" where
  "coca_cola = \<lparr>id_P = 1, name = ''Coca-Cola'', price = 5 / 2, stock = 100\<rparr>"

definition pepsi :: "rat Product" where
  "pepsi = \<lparr>id_P = 2, name = ''Pepsi'', price = 11 / 5, stock = 80\<rparr>"

definition guarana :: "rat Product" where
  "guarana = \<lparr>id_P = 3, name = ''Guaran'' @ [CHR 0xE1], price = 2, stock = 120\<rparr>"

definition seeded_store :: "(rat, nat) store" where
  "seeded_store = \<lparr>products = [coca_cola, pepsi, guarana], transactions = []\<rparr>"

text \<open>Values of \<open>json.loads\<close>, as far as the examples need them.\<close>

datatype json_value = JNull | JString string | JInt int | JObject "(string \<times> json_value) list"

definition example_validate_str :: "json_value \<Rightarrow> string option" where
  "example_validate_str v = (case v of JString s \<Rightarrow> Some s | _ \<Rightarrow> None)"

definition example_validate_data :: "json_value \<Rightarrow> IntentData option option" where
  "example_validate_data v =
     (case v of
        JNull \<Rightarrow> Some None
      | JObject kv \<Rightarrow>
          (case (map_of kv ''product_name'', map_of kv ''quantity'') of
             (Some (JString n), Some (JInt q)) \<Rightarrow> Some (Some (PurchaseIntent n q))
           | _ \<Rightarrow>
               (case map_of kv ''reason'' of
                  Some (JString r) \<Rightarrow> Some (Some (UnknownIntent r))
                | _ \<Rightarrow> None))
      | _ \<Rightarrow> None)"

definition purchase_json :: string where
  \<open>purchase_json =
     ''{"type": "purchase", "data": {"product_name": "Coca-Cola", "quantity": 3}}''\<close>

definition example_json_loads :: "string \<Rightarrow> exn + (string \<rightharpoonup> json_value)" where
  \<open>example_json_loads s =
     (if s = purchase_json
      then Inr [''type'' \<mapsto> JString ''purchase'',
                ''data'' \<mapsto> JObject [(''product_name'', JString ''Coca-Cola''),
                                       (''quantity'', JInt 3)]]
      else if s = ''{"type": "purchase"}''
      then Inr [''type'' \<mapsto> JString ''purchase'']
      else if s = ''{"type": "purchase", "data": null}''
      then Inr [''type'' \<mapsto> JString ''purchase'', ''data'' \<mapsto> JNull]
      else if s = ''{"type": "refund", "data": null}''
      then Inr [''type'' \<mapsto> JString ''refund'', ''data'' \<mapsto> JNull]
      else Inl (OtherException ''JSONDecodeError'' ''Expecting value''))\<close>

definition example_generate_content :: "string \<Rightarrow> exn + string" where
  \<open>example_generate_content message =
     (if message = ''Quero comprar 3 Coca-Cola''
      then Inr (''Here is the JSON: '' @ purchase_json @ [CHR 0x0A] @ ''Done.'')
      else if message = ''comprar''
      then Inr ''{"type": "purchase"}''
      else if message = ''compra''
      then Inr ''{"type": "purchase", "data": null}''
      else if message = ''reembolso''
      then Inr ''{"type": "refund", "data": null}''
      else if message = ''{''
      then Inr ''{"type": }''
      else if message = ''oi''
      then Inr ''I can only help with purchases.''
      else Inl (OtherException ''ResourceExhausted'' ''429 quota exceeded''))\<close>

definition example_world :: "(rat, nat, json_value) world" where
  "example_world =
     \<lparr>generate_content = example_generate_content,
      json_loads = example_json_loads,
      validate_str = example_validate_str,
      validate_data = example_validate_data,
      validation_message = (\<lambda>kwargs. ''Field required''),
      float_mul = (\<lambda>p q. p * of_int q),
      now = 0\<rparr>"


section \<open>Properties of product resolution and of the store\<close>

lemma find_mem: "find P xs = Some x \<Longrightarrow> x \<in> set xs"
  by (induction xs) (auto split: if_splits)

lemma find_filter: "find P xs = (case filter P xs of [] \<Rightarrow> None | x # _ \<Rightarrow> Some x)"
  by (induction xs) auto

lemma find_sort_key_name:
  "find (\<lambda>p. name p = n) (sort_key name ps) = find (\<lambda>p. name p = n) ps"
  by (simp add: find_filter sort_key_stable)

lemma similarity_search_lookup:
  "(\<And>n. find (\<lambda>p. name p = n) ps = find (\<lambda>p. name p = n) qs) \<Longrightarrow>
   similarity_search nm ns ps = similarity_search nm ns qs"
  by (induction ns) auto

lemma find_name_self:
  "\<forall>r\<in>set pre. name r \<noteq> name q \<Longrightarrow> find (\<lambda>p. name p = name q) (pre @ q # qs) = Some q"
  by (induction pre) auto

lemma similarity_search_suffix:
  "\<forall>r\<in>set pre. \<not> str_in (py_lower nm) (py_lower (name r)) \<Longrightarrow>
   similarity_search nm (map name qs) (pre @ qs) =
     find (\<lambda>p. str_in (py_lower nm) (py_lower (name p))) qs"
proof (induction qs arbitrary: pre)
  case Nil
  then show ?case by simp
next
  case (Cons q qs)
  show ?case
  proof (cases "str_in (py_lower nm) (py_lower (name q))")
    case True
    have "\<forall>r\<in>set pre. name r \<noteq> name q"
      using Cons.prems True by auto
    then show ?thesis using True by (simp add: find_name_self)
  next
    case False
    have "similarity_search nm (map name qs) ((pre @ [q]) @ qs) =
            find (\<lambda>p. str_in (py_lower nm) (py_lower (name p))) qs"
      by (rule Cons.IH) (use Cons.prems False in auto)
    then show ?thesis using False by simp
  qed
qed

lemma similarity_search_same_list:
  "similarity_search nm (map name qs) qs =
     find (\<lambda>p. str_in (py_lower nm) (py_lower (name p))) qs"
  using similarity_search_suffix [of "[]" nm qs] by simp

lemma similarity_search_find:
  "similarity_search nm (select_names ps) ps =
     find (\<lambda>p. str_in (py_lower nm) (py_lower (name p))) (sort_key name ps)"
proof -
  have "similarity_search nm (map name (sort_key name ps)) ps =
          similarity_search nm (map name (sort_key name ps)) (sort_key name ps)"
    by (rule similarity_search_lookup) (simp add: find_sort_key_name)
  then show ?thesis by (simp add: select_names_def similarity_search_same_list)
qed

lemma resolve_mem: "resolve nm ps = Inr (Some p) \<Longrightarrow> p \<in> set ps"
proof -
  assume r: "resolve nm ps = Inr (Some p)"
  show ?thesis
  proof (cases "exact_match nm ps")
    case (Inl e)
    then show ?thesis using r by (simp add: resolve_def)
  next
    case (Inr m)
    show ?thesis
    proof (cases m)
      case None
      then have "find (\<lambda>p. str_in (py_lower nm) (py_lower (name p))) (sort_key name ps) = Some p"
        using r Inr by (simp add: resolve_def similarity_search_find)
      then have "p \<in> set (sort_key name ps)" by (rule find_mem)
      then show ?thesis by simp
    next
      case (Some x)
      then have "x = p" using r Inr by (simp add: resolve_def)
      moreover have "find (\<lambda>r. sqlite_like (c_string (sqlite_lower nm))
                              (c_string (sqlite_lower (name r)))) ps = Some x"
        using Inr Some by (simp add: exact_match_def split: if_splits)
      ultimately show ?thesis by (auto dest: find_mem)
    qed
  qed
qed

lemma fold_max_ge: "(a::int) \<le> fold max xs a"
  by (induction xs arbitrary: a) (auto intro: order_trans [OF max.cobounded2])

lemma fold_max_mem: "x \<in> set xs \<Longrightarrow> (x::int) \<le> fold max xs a"
proof (induction xs arbitrary: a)
  case Nil
  then show ?case by simp
next
  case (Cons y ys)
  show ?case
  proof (cases "x = y")
    case True
    have "max y a \<le> fold max ys (max y a)" by (rule fold_max_ge)
    then show ?thesis using True by simp
  next
    case False
    then show ?thesis using Cons by simp
  qed
qed

lemma next_id_fresh: "next_id ids \<notin> set ids"
proof (cases ids)
  case Nil
  then show ?thesis by simp
next
  case (Cons i rest)
  have "x \<le> fold max rest i" if "x \<in> set ids" for x
    using that fold_max_ge [of i rest] fold_max_mem [of x rest i] Cons by auto
  then have "x < next_id ids" if "x \<in> set ids" for x
    using that Cons by (fastforce simp: next_id_def)
  then show ?thesis by blast
qed

lemma map_update_by_id:
  assumes "distinct (map id_P ps)" "p \<in> set ps"
  shows "map (\<lambda>r. if id_P r = id_P p then r\<lparr>stock := s\<rparr> else r) ps =
         map (\<lambda>r. if r = p then p\<lparr>stock := s\<rparr> else r) ps"
proof (rule map_cong [OF refl])
  fix r assume "r \<in> set ps"
  then have "id_P r = id_P p \<longleftrightarrow> r = p"
    using assms by (meson distinct_map inj_onD)
  then show "(if id_P r = id_P p then r\<lparr>stock := s\<rparr> else r) = (if r = p then p\<lparr>stock := s\<rparr> else r)"
    by auto
qed

lemma find_updated:
  "distinct (map id_P ps) \<Longrightarrow> p \<in> set ps \<Longrightarrow>
   find (\<lambda>r. id_P r = id_P p) (map (\<lambda>r. if r = p then p\<lparr>stock := s\<rparr> else r) ps) =
     Some (p\<lparr>stock := s\<rparr>)"
proof (induction ps)
  case Nil
  then show ?case by simp
next
  case (Cons a ps)
  show ?case
  proof (cases "a = p")
    case True
    then show ?thesis by simp
  next
    case False
    then have "p \<in> set ps" using Cons.prems by simp
    moreover from this have "id_P a \<noteq> id_P p" using Cons.prems(1) by force
    ultimately show ?thesis using Cons False by simp
  qed
qed

text \<open>Evaluation of the examples.\<close>

lemma char_eq_char_of_iff: "c = char_of (n::nat) \<longleftrightarrow> take_bit 8 n = of_char c"
  using char_of_eq_iff [of n c] by auto

lemmas ex_defs = coca_cola_def pepsi_def guarana_def seeded_store_def example_world_def
lemmas str_defs = sqlite_lower_def sqlite_lower_char_def py_lower_def py_lower_char_def
  strip_def py_isspace_def char_of_eq_iff char_eq_char_of_iff c_string_def utf8_length_def

lemma select_names_seeded:
  "select_names (products seeded_store) = [''Coca-Cola'', ''Guaran'' @ [CHR 0xE1], ''Pepsi'']"
  by (simp add: select_names_def ex_defs)

lemma resolve_ex: "resolve (strip '' coca-cola '') (products seeded_store) = Inr (Some coca_cola)"
  by (simp add: resolve_def exact_match_def ex_defs str_defs)

lemma distinct_ex: "distinct (map id_P (products seeded_store))"
  by (simp add: ex_defs)


section \<open>The purchase workflow\<close>

text \<open>
  Claim C1. A purchase of a positive quantity \<open>q\<close> that resolves to a product \<open>p\<close> with
  \<open>q \<le> stock p\<close> succeeds. It leaves the stock of \<open>p\<close> at \<open>stock p - q\<close>, every other
  product row as it was, and the transactions as they were with one new row at the end: the
  row has a key that no earlier transaction has, the key of \<open>p\<close> as \<open>product_id\<close>, the
  quantity \<open>q\<close> and the total \<open>price p * q\<close>. The primary key of the product table
  (\<open>distinct\<close> keys) is what makes the update touch one row. The response shows the new
  stock and the stored product row.
\<close>

theorem purchase_success:
  assumes "distinct (map id_P (products st))"
    and "0 < q"
    and "resolve (strip requested) (products st) = Inr (Some p)"
    and "q \<le> stock p"
  shows "purchase w requested q st =
           (Success (stock p - q) (Some (p\<lparr>stock := stock p - q\<rparr>)) None,
            \<lparr>products = map (\<lambda>r. if r = p then p\<lparr>stock := stock p - q\<rparr> else r) (products st),
             transactions = transactions st @
               [\<lparr>id_T = next_id (map id_T (transactions st)), product_id = id_P p,
                 quantity_T = q, total_price = float_mul w (price p) q, timestamp = now w\<rparr>]\<rparr>)
         \<and> next_id (map id_T (transactions st)) \<notin> id_T ` set (transactions st)"
proof -
  let ?p' = "p\<lparr>stock := stock p - q\<rparr>"
  let ?t = "\<lparr>id_T = next_id (map id_T (transactions st)), product_id = id_P p,
             quantity_T = q, total_price = float_mul w (price p) q, timestamp = now w\<rparr>"
  have mem: "p \<in> set (products st)" using assms(3) by (rule resolve_mem)
  have fresh: "next_id (map id_T (transactions st)) \<notin> id_T ` set (transactions st)"
    using next_id_fresh [of "map id_T (transactions st)"] by simp
  have c: "commit ?p' ?t st =
             \<lparr>products = map (\<lambda>r. if r = p then ?p' else r) (products st),
              transactions = transactions st @ [?t]\<rparr>"
    by (simp add: commit_def map_update_by_id [OF assms(1) mem])
  have f: "find (\<lambda>r. id_P r = id_P ?p') (products (commit ?p' ?t st)) = Some ?p'"
    unfolding c using find_updated [OF assms(1) mem, of "stock p - q"] by simp
  have "purchase w requested q st = (Success (stock p - q) (Some ?p') None, commit ?p' ?t st)"
    using assms(2,3,4) f by (simp add: purchase_def Let_def)
  then show ?thesis using fresh c by simp
qed

theorem purchase_success_witness:
  "purchase example_world '' coca-cola '' 3 seeded_store =
     (Success 97 (Some (coca_cola\<lparr>stock := 97\<rparr>)) None,
      \<lparr>products = [coca_cola\<lparr>stock := 97\<rparr>, pepsi, guarana],
       transactions =
         [\<lparr>id_T = 1, product_id = 1, quantity_T = 3, total_price = 15 / 2, timestamp = 0\<rparr>]\<rparr>)"
proof -
  have q: "(0::int) < 3" by simp
  have s: "(3::int) \<le> stock coca_cola" by (simp add: coca_cola_def)
  show ?thesis
    using purchase_success [OF distinct_ex q resolve_ex s, of example_world]
    by (simp add: ex_defs next_id_def)
qed

text \<open>
  Claim C2. When the request resolves to a product \<open>p\<close> and the quantity is greater than
  \<open>stock p\<close>, the purchase fails with status 400 and the detail \<open>InsufficientStock (stock p)\<close>,
  and the store is unchanged. A product is resolved only after the quantity was found
  positive; under the invariant of the data model (no negative stock) a quantity above the
  stock is positive anyway.
\<close>

theorem insufficient_stock:
  assumes "resolve (strip requested) (products st) = Inr (Some p)"
    and "stock p < q"
    and "0 < q \<or> stock_nonneg st"
  shows "purchase w requested q st = (HTTPException 400 (InsufficientStock (stock p)), st)"
proof -
  have "p \<in> set (products st)" using assms(1) by (rule resolve_mem)
  then have "stock_nonneg st \<Longrightarrow> 0 \<le> stock p"
    by (simp add: stock_nonneg_def list_all_iff)
  then have "0 < q" using assms(2,3) by auto
  then show ?thesis using assms(1,2) by (simp add: purchase_def)
qed

theorem insufficient_stock_witness:
  "purchase example_world ''PEPSI'' 81 seeded_store =
     (HTTPException 400 (InsufficientStock 80), seeded_store)"
proof -
  have r: "resolve (strip ''PEPSI'') (products seeded_store) = Inr (Some pepsi)"
    by (simp add: resolve_def exact_match_def ex_defs str_defs)
  have s: "stock pepsi < 81" by (simp add: pepsi_def)
  have n: "0 < (81::int) \<or> stock_nonneg seeded_store" by simp
  show ?thesis
    using insufficient_stock [OF r s n, of example_world] by (simp add: pepsi_def)
qed

text \<open>
  Claim C3. A quantity \<open>q \<le> 0\<close> fails with status 400 and the detail \<open>InvalidQuantity\<close>
  whatever the requested name is, since the quantity is checked before any product is looked
  up; the store is unchanged. The same holds for \<open>interact\<close> on a purchase intent.
\<close>

theorem invalid_quantity:
  assumes "q \<le> 0"
  shows "purchase w requested q st = (HTTPException 400 InvalidQuantity, st)
       \<and> interact_intent w \<lparr>type = ''purchase'', data = Some (PurchaseIntent requested q)\<rparr> st =
           (HTTPException 400 InvalidQuantity, st)"
  using assms by (simp add: purchase_def interact_intent_def isinstance_PurchaseIntent_def)

theorem invalid_quantity_witness:
  "purchase example_world ''Sprite'' 0 seeded_store =
     (HTTPException 400 InvalidQuantity, seeded_store)
   \<and> interact_intent example_world
       \<lparr>type = ''purchase'', data = Some (PurchaseIntent ''Sprite'' 0)\<rparr> seeded_store =
     (HTTPException 400 InvalidQuantity, seeded_store)
   \<and> resolve (strip ''Sprite'') (products seeded_store) = Inr None"
proof -
  have q: "(0::int) \<le> 0" by simp
  have r: "resolve (strip ''Sprite'') (products seeded_store) = Inr None"
    by (simp add: resolve_def exact_match_def select_names_def ex_defs str_defs)
  show ?thesis
    using invalid_quantity [OF q, of example_world "''Sprite''" seeded_store] r by simp
qed

lemma commit_stock_nonneg:
  "stock_nonneg st \<Longrightarrow> 0 \<le> stock p' \<Longrightarrow> stock_nonneg (commit p' t st)"
  by (auto simp add: stock_nonneg_def commit_def list_all_iff)

lemma purchase_stock_nonneg:
  assumes "stock_nonneg st"
  shows "stock_nonneg (snd (purchase w requested q st))"
proof (cases "q \<le> 0")
  case True
  then show ?thesis using assms by (simp add: purchase_def)
next
  case pos: False
  show ?thesis
  proof (cases "resolve (strip requested) (products st)")
    case (Inl e)
    then show ?thesis using assms pos by (simp add: purchase_def)
  next
    case (Inr m)
    show ?thesis
    proof (cases m)
      case None
      then show ?thesis using assms pos Inr by (simp add: purchase_def)
    next
      case (Some p)
      show ?thesis
      proof (cases "stock p < q")
        case True
        then show ?thesis using assms pos Inr Some by (simp add: purchase_def)
      next
        case False
        then have "0 \<le> stock (p\<lparr>stock := stock p - q\<rparr>)" by simp
        then show ?thesis
          using assms pos Inr Some False
          by (simp add: purchase_def Let_def commit_stock_nonneg del: Product.simps)
      qed
    qed
  qed
qed

lemma interact_intent_stock_nonneg:
  "stock_nonneg st \<Longrightarrow> stock_nonneg (snd (interact_intent w intent st))"
  by (simp add: interact_intent_def purchase_stock_nonneg)

lemma serve_stock_nonneg:
  "stock_nonneg st \<Longrightarrow> stock_nonneg (snd (serve w r st))"
  by (cases r)
    (simp_all add: root_def interface_def list_products_def list_transactions_def
      interact_def interact_intent_stock_nonneg split: sum.splits)

lemma serve_all_stock_nonneg:
  "stock_nonneg st \<Longrightarrow> stock_nonneg (serve_all rs st)"
proof (induction rs arbitrary: st)
  case Nil
  then show ?case by simp
next
  case (Cons a rs)
  obtain w r where a: "a = (w, r)" by (cases a)
  show ?case unfolding a serve_all.simps
    by (rule Cons.IH) (rule serve_stock_nonneg [OF Cons.prems])
qed

lemma seeded_nonneg: "stock_nonneg seeded_store"
  by (simp add: stock_nonneg_def seeded_store_def coca_cola_def pepsi_def guarana_def)

text \<open>
  Claim C4. No product has a negative stock after any operation: from a store in which no
  stock is negative, a purchase (completed or refused), every endpoint of the API and every
  sequence of requests served one after the other lead to a store in which no stock is
  negative. The decrement is reached only with \<open>0 < q \<le> stock p\<close>.
\<close>

theorem stock_never_negative:
  assumes "stock_nonneg st"
  shows "stock_nonneg (snd (purchase w requested q st))
       \<and> stock_nonneg (snd (serve w r st))
       \<and> stock_nonneg (serve_all rs st)"
  using assms by (simp add: purchase_stock_nonneg serve_stock_nonneg serve_all_stock_nonneg)

theorem stock_never_negative_witness:
  "stock_nonneg (snd (purchase example_world ''Pepsi'' 80 seeded_store))
   \<and> stock_nonneg (snd (serve example_world (POST_interact ''Quero comprar 3 Coca-Cola'') seeded_store))
   \<and> stock_nonneg (serve_all
        [(example_world, POST_interact ''Quero comprar 3 Coca-Cola''),
         (example_world, GET_products),
         (example_world, POST_interact ''oi'')] seeded_store)"
  using stock_never_negative [OF seeded_nonneg] by blast

lemmas parse_defs = parse_user_message_def parse_try_def UserIntent_init_def
  example_world_def example_generate_content_def example_json_loads_def
  example_validate_str_def example_validate_data_def purchase_json_def match_at_def

lemma parse_compra:
  "parse_user_message example_world ''compra'' = Inr \<lparr>type = ''purchase'', data = None\<rparr>"
  by (simp add: parse_defs)

lemma parse_reembolso:
  "parse_user_message example_world ''reembolso'' = Inr \<lparr>type = ''refund'', data = None\<rparr>"
  by (simp add: parse_defs)

text \<open>
  Claim C9. An intent whose type is \<open>purchase\<close> and whose data is not a \<open>PurchaseIntent\<close>
  (absent, or an \<open>UnknownIntent\<close>), or whose type is neither \<open>purchase\<close> nor \<open>unknown\<close>,
  ends in the generic error with status 500, and the store is unchanged: no transaction is
  created and no stock changes. The same holds for \<open>interact\<close> on a message that the parser
  turns into such an intent.
\<close>

theorem unclassified_intent_is_internal_error:
  assumes "(type intent = ''purchase'' \<and> \<not> isinstance_PurchaseIntent (data intent))
         \<or> (type intent \<noteq> ''purchase'' \<and> type intent \<noteq> ''unknown'')"
  shows "interact_intent w intent st = (HTTPException 500 Internal, st)
       \<and> (parse_user_message w message = Inr intent \<longrightarrow>
            interact w message st = (HTTPException 500 Internal, st))"
  using assms by (auto simp add: interact_intent_def interact_def)

theorem unclassified_intent_is_internal_error_witness:
  "interact example_world ''compra'' seeded_store = (HTTPException 500 Internal, seeded_store)
   \<and> interact example_world ''reembolso'' seeded_store = (HTTPException 500 Internal, seeded_store)
   \<and> interact_intent example_world \<lparr>type = ''purchase'', data = Some (UnknownIntent ''?'')\<rparr>
         seeded_store = (HTTPException 500 Internal, seeded_store)"
proof -
  have a: "(type \<lparr>type = ''purchase'', data = None\<rparr> = ''purchase''
            \<and> \<not> isinstance_PurchaseIntent (data \<lparr>type = ''purchase'', data = None\<rparr>))
         \<or> (type \<lparr>type = ''purchase'', data = None\<rparr> \<noteq> ''purchase''
            \<and> type \<lparr>type = ''purchase'', data = None\<rparr> \<noteq> ''unknown'')"
    by (simp add: isinstance_PurchaseIntent_def)
  have b: "(type \<lparr>type = ''refund'', data = None\<rparr> = ''purchase''
            \<and> \<not> isinstance_PurchaseIntent (data \<lparr>type = ''refund'', data = None\<rparr>))
         \<or> (type \<lparr>type = ''refund'', data = None\<rparr> \<noteq> ''purchase''
            \<and> type \<lparr>type = ''refund'', data = None\<rparr> \<noteq> ''unknown'')"
    by simp
  have c: "(type \<lparr>type = ''purchase'', data = Some (UnknownIntent ''?'')\<rparr> = ''purchase''
            \<and> \<not> isinstance_PurchaseIntent (data \<lparr>type = ''purchase'', data = Some (UnknownIntent ''?'')\<rparr>))
         \<or> (type \<lparr>type = ''purchase'', data = Some (UnknownIntent ''?'')\<rparr> \<noteq> ''purchase''
            \<and> type \<lparr>type = ''purchase'', data = Some (UnknownIntent ''?'')\<rparr> \<noteq> ''unknown'')"
    by (simp add: isinstance_PurchaseIntent_def)
  show ?thesis
    using unclassified_intent_is_internal_error [OF a, of example_world seeded_store "''compra''"]
      unclassified_intent_is_internal_error [OF b, of example_world seeded_store "''reembolso''"]
      unclassified_intent_is_internal_error [OF c, of example_world seeded_store "''compra''"]
      parse_compra parse_reembolso
    by blast
qed


section \<open>The intent parser\<close>

lemma greedy_close_None: "greedy_close s = None \<longleftrightarrow> CHR ''}'' \<notin> set s"
  by (induction s) (auto split: option.splits)

lemma greedy_close_last:
  "CHR ''}'' \<notin> set post \<Longrightarrow> greedy_close (mid @ CHR ''}'' # post) = Some (mid @ [CHR ''}''])"
proof (induction mid)
  case Nil
  then show ?case using greedy_close_None [of post] by simp
next
  case (Cons c mid)
  then show ?case by simp
qed

lemma re_search_no_close: "CHR ''}'' \<notin> set s \<Longrightarrow> re_search s = None"
proof (induction s)
  case Nil
  then show ?case by simp
next
  case (Cons c cs)
  then have "greedy_close cs = None" by (simp add: greedy_close_None)
  then show ?case using Cons by (simp add: match_at_def)
qed

lemma re_search_no_open: "CHR ''{'' \<notin> set s \<Longrightarrow> re_search s = None"
  by (induction s) (auto simp: match_at_def)

lemma re_search_first_open:
  "CHR ''{'' \<notin> set pre \<Longrightarrow>
   re_search (pre @ CHR ''{'' # rest) = map_option ((#) CHR ''{'') (greedy_close rest)"
proof (induction pre)
  case Nil
  show ?case
  proof (cases "greedy_close rest")
    case None
    then have "re_search rest = None"
      by (simp add: greedy_close_None re_search_no_close)
    then show ?thesis using None by (simp add: match_at_def)
  next
    case (Some m)
    then show ?thesis by (simp add: match_at_def)
  qed
next
  case (Cons c pre)
  then have "c \<noteq> CHR ''{''" by auto
  then show ?case using Cons by (simp add: match_at_def)
qed

lemma re_search_span:
  assumes "CHR ''{'' \<notin> set pre" "CHR ''}'' \<notin> set post"
  shows "re_search (pre @ CHR ''{'' # mid @ CHR ''}'' # post) = Some (CHR ''{'' # mid @ [CHR ''}''])"
  using assms by (simp add: re_search_first_open greedy_close_last)

lemma re_search_None_iff:
  "re_search text = None \<longleftrightarrow>
     \<not> (\<exists>pre mid post. text = pre @ CHR ''{'' # mid @ CHR ''}'' # post)"
proof (cases "CHR ''{'' \<in> set text")
  case False
  then have "re_search text = None" by (rule re_search_no_open)
  moreover have "\<not> (\<exists>pre mid post. text = pre @ CHR ''{'' # mid @ CHR ''}'' # post)"
    using False by auto
  ultimately show ?thesis by simp
next
  case True
  then obtain pre rest where t: "text = pre @ CHR ''{'' # rest" and pre: "CHR ''{'' \<notin> set pre"
    by (auto dest: split_list_first)
  have s: "re_search text = map_option ((#) CHR ''{'') (greedy_close rest)"
    unfolding t using pre by (rule re_search_first_open)
  show ?thesis
  proof (cases "CHR ''}'' \<in> set rest")
    case True
    then obtain mid post where "rest = mid @ CHR ''}'' # post"
      by (auto dest: split_list)
    then have "\<exists>pre mid post. text = pre @ CHR ''{'' # mid @ CHR ''}'' # post"
      using t by blast
    moreover have "re_search text \<noteq> None"
      using s True greedy_close_None [of rest] by auto
    ultimately show ?thesis by simp
  next
    case False
    then have n: "re_search text = None" using s by (simp add: greedy_close_None)
    have "\<not> (\<exists>pre' mid post. text = pre' @ CHR ''{'' # mid @ CHR ''}'' # post)"
    proof
      assume "\<exists>pre' mid post. text = pre' @ CHR ''{'' # mid @ CHR ''}'' # post"
      then obtain pre' mid post where d: "pre @ CHR ''{'' # rest = pre' @ CHR ''{'' # mid @ CHR ''}'' # post"
        using t by auto
      then have "CHR ''}'' \<in> set rest"
        using pre by (auto simp: append_eq_append_conv2 Cons_eq_append_conv append_eq_Cons_conv)
      then show False using False by simp
    qed
    then show ?thesis using n by simp
  qed
qed

text \<open>
  Claim C8. The extraction step returns the part of the response from its first opening
  brace to its last closing brace, whatever lies between (line breaks, further braces). It
  returns nothing exactly when no opening brace of the response is followed by a closing
  brace, and the parser then goes on with the empty dictionary.
\<close>

theorem json_extraction_first_to_last:
  "(CHR ''{'' \<notin> set pre \<and> CHR ''}'' \<notin> set post \<longrightarrow>
      re_search (pre @ CHR ''{'' # mid @ CHR ''}'' # post) = Some (CHR ''{'' # mid @ [CHR ''}'']))
   \<and> (re_search text = None \<longleftrightarrow>
        \<not> (\<exists>pre mid post. text = pre @ CHR ''{'' # mid @ CHR ''}'' # post))
   \<and> (generate_content w message = Inr text \<and> re_search text = None \<longrightarrow>
        parse_try w message = UserIntent_init w Map.empty)"
proof (intro conjI impI)
  assume "CHR ''{'' \<notin> set pre \<and> CHR ''}'' \<notin> set post"
  then show "re_search (pre @ CHR ''{'' # mid @ CHR ''}'' # post) = Some (CHR ''{'' # mid @ [CHR ''}''])"
    by (simp add: re_search_span)
next
  show "re_search text = None \<longleftrightarrow>
        \<not> (\<exists>pre mid post. text = pre @ CHR ''{'' # mid @ CHR ''}'' # post)"
    by (rule re_search_None_iff)
next
  assume "generate_content w message = Inr text \<and> re_search text = None"
  then show "parse_try w message = UserIntent_init w Map.empty"
    by (simp add: parse_try_def)
qed

theorem json_extraction_first_to_last_witness:
  "re_search (''Here is the JSON: '' @ purchase_json @ [CHR 0x0A] @ ''Done.'') = Some purchase_json
   \<and> re_search ''a {b} c {d} e'' = Some ''{b} c {d}''
   \<and> re_search ''} then {'' = None
   \<and> parse_try example_world ''oi'' = UserIntent_init example_world Map.empty"
proof -
  have a: "CHR ''{'' \<notin> set ''Here is the JSON: '' \<and> CHR ''}'' \<notin> set ([CHR 0x0A] @ ''Done.'')"
    by simp
  have b: "CHR ''{'' \<notin> set ''a '' \<and> CHR ''}'' \<notin> set '' e''" by simp
  have c: "re_search ''} then {'' = None" by (simp add: match_at_def)
  have d: "generate_content example_world ''oi'' = Inr ''I can only help with purchases.''
           \<and> re_search ''I can only help with purchases.'' = None"
    by (simp add: example_world_def example_generate_content_def match_at_def)
  note t1 = json_extraction_first_to_last
    [of "''Here is the JSON: ''" "[CHR 0x0A] @ ''Done.''"
        "''\"type\": \"purchase\", \"data\": {\"product_name\": \"Coca-Cola\", \"quantity\": 3}''"
        "''I can only help with purchases.''" example_world "''oi''"]
  note t2 = json_extraction_first_to_last
    [of "''a ''" "'' e''" "''b} c {d''" "''} then {''" example_world "''oi''"]
  have 1: "re_search (''Here is the JSON: '' @ purchase_json @ [CHR 0x0A] @ ''Done.'') = Some purchase_json"
    using t1 a by (simp add: purchase_json_def)
  have 2: "re_search ''a {b} c {d} e'' = Some ''{b} c {d}''"
    using t2 b by simp
  have 4: "parse_try example_world ''oi'' = UserIntent_init example_world Map.empty"
    using t1 d by blast
  show ?thesis using 1 2 c 4 by blast
qed

lemma UserIntent_init_error:
  "UserIntent_init w d = Inl e \<Longrightarrow> e = ValidationError (validation_message w d)"
  by (auto simp: UserIntent_init_def split: option.splits)

lemma UserIntent_init_empty:
  "UserIntent_init w Map.empty = Inl (ValidationError (validation_message w Map.empty))"
  by (simp add: UserIntent_init_def)

lemma gen_defs:
  "generate_content example_world m = example_generate_content m"
  "json_loads example_world = example_json_loads"
  by (simp_all add: example_world_def)

text \<open>
  Claim C7. \<open>parse_user_message\<close> always returns an intent. Whenever a step of the \<open>try\<close>
  block raises, the intent has the type \<open>unknown\<close> and its data is an \<open>UnknownIntent\<close> with a
  reason that is not empty. An exception of the language service or of the JSON decoder
  gives the reason \<open>Erro com Gemini: \<close>, the class name, a colon and a space, and the text
  of the exception. A response without a brace-delimited part, and a dictionary that fails
  validation, give the reason \<open>Erro de validacao: \<close> (with the cedilla and the tilde) and the
  text of the validation error.
\<close>

theorem parse_user_message_never_raises:
  "(\<exists>intent. parse_user_message w message = Inr intent)
   \<and> (\<forall>e. parse_try w message = Inl e \<longrightarrow>
        (\<exists>r. r \<noteq> [] \<and> parse_user_message w message =
                Inr \<lparr>type = ''unknown'', data = Some (UnknownIntent r)\<rparr>))
   \<and> (\<forall>cls msg. generate_content w message = Inl (OtherException cls msg) \<longrightarrow>
        parse_user_message w message =
          Inr \<lparr>type = ''unknown'',
               data = Some (UnknownIntent (''Erro com Gemini: '' @ cls @ '': '' @ msg))\<rparr>)
   \<and> (\<forall>resp. generate_content w message = Inr resp \<and> re_search resp = None \<longrightarrow>
        parse_user_message w message =
          Inr \<lparr>type = ''unknown'',
               data = Some (UnknownIntent
                 (''Erro de valida'' @ [CHR 0xE7, CHR 0xE3] @ ''o: ''
                    @ validation_message w Map.empty))\<rparr>)
   \<and> (\<forall>resp m cls msg.
        generate_content w message = Inr resp \<and> re_search resp = Some m
          \<and> json_loads w m = Inl (OtherException cls msg) \<longrightarrow>
        parse_user_message w message =
          Inr \<lparr>type = ''unknown'',
               data = Some (UnknownIntent (''Erro com Gemini: '' @ cls @ '': '' @ msg))\<rparr>)
   \<and> (\<forall>resp m d e.
        generate_content w message = Inr resp \<and> re_search resp = Some m
          \<and> json_loads w m = Inr d \<and> UserIntent_init w d = Inl e \<longrightarrow>
        parse_user_message w message =
          Inr \<lparr>type = ''unknown'',
               data = Some (UnknownIntent
                 (''Erro de valida'' @ [CHR 0xE7, CHR 0xE3] @ ''o: ''
                    @ validation_message w d))\<rparr>)
   \<and> (\<forall>intent. parse_try w message = Inr intent \<longrightarrow>
        parse_user_message w message = Inr intent)"
proof (intro conjI allI impI)
  show "\<exists>intent. parse_user_message w message = Inr intent"
    by (simp add: parse_user_message_def split: sum.splits exn.splits)
next
  fix e assume a: "parse_try w message = Inl e"
  show "\<exists>r. r \<noteq> [] \<and> parse_user_message w message =
                Inr \<lparr>type = ''unknown'', data = Some (UnknownIntent r)\<rparr>"
  proof (cases e)
    case (ValidationError msg)
    then have "parse_user_message w message =
        Inr \<lparr>type = ''unknown'', data = Some (UnknownIntent
               (''Erro de valida'' @ [CHR 0xE7, CHR 0xE3] @ ''o: '' @ msg))\<rparr>"
      using a by (simp add: parse_user_message_def)
    moreover have "''Erro de valida'' @ [CHR 0xE7, CHR 0xE3] @ ''o: '' @ msg \<noteq> []" by simp
    ultimately show ?thesis by blast
  next
    case (OtherException cls msg)
    then have "parse_user_message w message =
        Inr \<lparr>type = ''unknown'',
             data = Some (UnknownIntent (''Erro com Gemini: '' @ cls @ '': '' @ msg))\<rparr>"
      using a by (simp add: parse_user_message_def)
    moreover have "''Erro com Gemini: '' @ cls @ '': '' @ msg \<noteq> []" by simp
    ultimately show ?thesis by blast
  qed
next
  fix cls msg assume "generate_content w message = Inl (OtherException cls msg)"
  then show "parse_user_message w message =
          Inr \<lparr>type = ''unknown'',
               data = Some (UnknownIntent (''Erro com Gemini: '' @ cls @ '': '' @ msg))\<rparr>"
    by (simp add: parse_user_message_def parse_try_def)
next
  fix resp assume "generate_content w message = Inr resp \<and> re_search resp = None"
  then show "parse_user_message w message =
          Inr \<lparr>type = ''unknown'',
               data = Some (UnknownIntent
                 (''Erro de valida'' @ [CHR 0xE7, CHR 0xE3] @ ''o: ''
                    @ validation_message w Map.empty))\<rparr>"
    by (simp add: parse_user_message_def parse_try_def UserIntent_init_empty)
next
  fix resp m cls msg
  assume "generate_content w message = Inr resp \<and> re_search resp = Some m
          \<and> json_loads w m = Inl (OtherException cls msg)"
  then show "parse_user_message w message =
          Inr \<lparr>type = ''unknown'',
               data = Some (UnknownIntent (''Erro com Gemini: '' @ cls @ '': '' @ msg))\<rparr>"
    by (simp add: parse_user_message_def parse_try_def)
next
  fix resp m d e
  assume a: "generate_content w message = Inr resp \<and> re_search resp = Some m
          \<and> json_loads w m = Inr d \<and> UserIntent_init w d = Inl e"
  then have "UserIntent_init w d = Inl (ValidationError (validation_message w d))"
    using UserIntent_init_error [of w d e] by simp
  then show "parse_user_message w message =
          Inr \<lparr>type = ''unknown'',
               data = Some (UnknownIntent
                 (''Erro de valida'' @ [CHR 0xE7, CHR 0xE3] @ ''o: ''
                    @ validation_message w d))\<rparr>"
    using a by (simp add: parse_user_message_def parse_try_def)
next
  fix intent assume "parse_try w message = Inr intent"
  then show "parse_user_message w message = Inr intent"
    by (simp add: parse_user_message_def)
qed

theorem parse_user_message_never_raises_witness:
  "parse_user_message example_world ''timeout'' =
     Inr \<lparr>type = ''unknown'', data = Some (UnknownIntent
            ''Erro com Gemini: ResourceExhausted: 429 quota exceeded'')\<rparr>
   \<and> parse_user_message example_world ''oi'' =
     Inr \<lparr>type = ''unknown'', data = Some (UnknownIntent
            (''Erro de valida'' @ [CHR 0xE7, CHR 0xE3] @ ''o: Field required''))\<rparr>
   \<and> parse_user_message example_world ''{'' =
     Inr \<lparr>type = ''unknown'', data = Some (UnknownIntent
            ''Erro com Gemini: JSONDecodeError: Expecting value'')\<rparr>
   \<and> parse_user_message example_world ''comprar'' =
     Inr \<lparr>type = ''unknown'', data = Some (UnknownIntent
            (''Erro de valida'' @ [CHR 0xE7, CHR 0xE3] @ ''o: Field required''))\<rparr>
   \<and> parse_user_message example_world ''Quero comprar 3 Coca-Cola'' =
     Inr \<lparr>type = ''purchase'', data = Some (PurchaseIntent ''Coca-Cola'' 3)\<rparr>"
proof -
  have g1: "generate_content example_world ''timeout'' =
              Inl (OtherException ''ResourceExhausted'' ''429 quota exceeded'')"
    by (simp add: gen_defs example_generate_content_def)
  have "parse_user_message example_world ''timeout'' =
     Inr \<lparr>type = ''unknown'', data = Some (UnknownIntent
            (''Erro com Gemini: '' @ ''ResourceExhausted'' @ '': '' @ ''429 quota exceeded''))\<rparr>"
    using parse_user_message_never_raises [of example_world "''timeout''"] g1 by blast
  then have 1: "parse_user_message example_world ''timeout'' =
     Inr \<lparr>type = ''unknown'', data = Some (UnknownIntent
            ''Erro com Gemini: ResourceExhausted: 429 quota exceeded'')\<rparr>"
    by simp
  have g2: "generate_content example_world ''oi'' = Inr ''I can only help with purchases.''
            \<and> re_search ''I can only help with purchases.'' = None"
    by (simp add: gen_defs example_generate_content_def match_at_def)
  have "parse_user_message example_world ''oi'' =
     Inr \<lparr>type = ''unknown'', data = Some (UnknownIntent
            (''Erro de valida'' @ [CHR 0xE7, CHR 0xE3] @ ''o: ''
               @ validation_message example_world Map.empty))\<rparr>"
    using parse_user_message_never_raises [of example_world "''oi''"] g2 by blast
  then have 2: "parse_user_message example_world ''oi'' =
     Inr \<lparr>type = ''unknown'', data = Some (UnknownIntent
            (''Erro de valida'' @ [CHR 0xE7, CHR 0xE3] @ ''o: Field required''))\<rparr>"
    by (simp add: example_world_def)
  have g3: "generate_content example_world ''{'' = Inr ''{\"type\": }''
            \<and> re_search ''{\"type\": }'' = Some ''{\"type\": }''
            \<and> json_loads example_world ''{\"type\": }'' =
                Inl (OtherException ''JSONDecodeError'' ''Expecting value'')"
    by (simp add: gen_defs example_generate_content_def example_json_loads_def
        purchase_json_def match_at_def)
  have "parse_user_message example_world ''{'' =
     Inr \<lparr>type = ''unknown'', data = Some (UnknownIntent
            (''Erro com Gemini: '' @ ''JSONDecodeError'' @ '': '' @ ''Expecting value''))\<rparr>"
    using parse_user_message_never_raises [of example_world "''{''"] g3 by blast
  then have 3: "parse_user_message example_world ''{'' =
     Inr \<lparr>type = ''unknown'', data = Some (UnknownIntent
            ''Erro com Gemini: JSONDecodeError: Expecting value'')\<rparr>"
    by simp
  have g4: "generate_content example_world ''comprar'' = Inr ''{\"type\": \"purchase\"}''
            \<and> re_search ''{\"type\": \"purchase\"}'' = Some ''{\"type\": \"purchase\"}''
            \<and> json_loads example_world ''{\"type\": \"purchase\"}'' =
                Inr [''type'' \<mapsto> JString ''purchase'']
            \<and> UserIntent_init example_world [''type'' \<mapsto> JString ''purchase''] =
                Inl (ValidationError ''Field required'')"
    by (simp add: gen_defs example_generate_content_def example_json_loads_def
        purchase_json_def match_at_def UserIntent_init_def example_world_def)
  have "parse_user_message example_world ''comprar'' =
     Inr \<lparr>type = ''unknown'', data = Some (UnknownIntent
            (''Erro de valida'' @ [CHR 0xE7, CHR 0xE3] @ ''o: ''
               @ validation_message example_world [''type'' \<mapsto> JString ''purchase'']))\<rparr>"
    using parse_user_message_never_raises [of example_world "''comprar''"] g4 by blast
  then have 4: "parse_user_message example_world ''comprar'' =
     Inr \<lparr>type = ''unknown'', data = Some (UnknownIntent
            (''Erro de valida'' @ [CHR 0xE7, CHR 0xE3] @ ''o: Field required''))\<rparr>"
    by (simp add: example_world_def)
  have g5: "parse_try example_world ''Quero comprar 3 Coca-Cola'' =
              Inr \<lparr>type = ''purchase'', data = Some (PurchaseIntent ''Coca-Cola'' 3)\<rparr>"
    by (simp add: parse_defs)
  have 5: "parse_user_message example_world ''Quero comprar 3 Coca-Cola'' =
     Inr \<lparr>type = ''purchase'', data = Some (PurchaseIntent ''Coca-Cola'' 3)\<rparr>"
    using parse_user_message_never_raises [of example_world "''Quero comprar 3 Coca-Cola''"] g5
    by blast
  show ?thesis using 1 2 3 4 5 by blast
qed


section \<open>Product resolution\<close>

lemma str_in_iff: "str_in needle hay \<longleftrightarrow> (\<exists>pre suf. hay = pre @ needle @ suf)"
proof (induction hay)
  case Nil
  then show ?case by auto
next
  case (Cons c cs)
  show ?case
  proof
    assume "str_in needle (c # cs)"
    then consider "take (length needle) (c # cs) = needle" | "str_in needle cs" by auto
    then show "\<exists>pre suf. c # cs = pre @ needle @ suf"
    proof cases
      case 1
      then have "c # cs = [] @ needle @ drop (length needle) (c # cs)"
        by (metis append_Nil append_take_drop_id)
      then show ?thesis by blast
    next
      case 2
      then obtain pre suf where "cs = pre @ needle @ suf" using Cons.IH by auto
      then have "c # cs = (c # pre) @ needle @ suf" by simp
      then show ?thesis by blast
    qed
  next
    assume "\<exists>pre suf. c # cs = pre @ needle @ suf"
    then obtain pre suf where d: "c # cs = pre @ needle @ suf" by auto
    show "str_in needle (c # cs)"
    proof (cases pre)
      case Nil
      then have "take (length needle) (c # cs) = needle" using d by simp
      then show ?thesis by simp
    next
      case (Cons a pre')
      then have "cs = pre' @ needle @ suf" using d by simp
      then have "str_in needle cs" using Cons.IH by auto
      then show ?thesis by simp
    qed
  qed
qed

lemma find_unique:
  assumes "p \<in> set ps" "P p" "\<forall>r\<in>set ps. P r \<longrightarrow> r = p"
  shows "find P ps = Some p"
proof (cases "find P ps")
  case None
  then show ?thesis using assms(1,2) by (auto simp: find_None_iff)
next
  case (Some x)
  then have "x \<in> set ps \<and> P x" by (auto simp: find_Some_iff)
  then show ?thesis using assms(3) Some by auto
qed

lemma find_sorted_least:
  assumes "find P (sort_key name ps) = Some p" "r \<in> set ps" "P r"
  shows "name p \<le> name r"
proof -
  let ?qs = "sort_key name ps"
  obtain i where i: "i < length ?qs" "p = ?qs ! i" "\<forall>j<i. \<not> P (?qs ! j)"
    using assms(1) unfolding find_Some_iff by blast
  have "r \<in> set ?qs" using assms(2) by simp
  then obtain k where k: "k < length ?qs" "r = ?qs ! k"
    by (metis in_set_conv_nth)
  have ik: "i \<le> k" using i(3) k(2) assms(3) by (meson not_le_imp_less)
  have so: "sorted (map name ?qs)" by (rule sorted_sort_key)
  have kl: "k < length (map name ?qs)" using k(1) by simp
  have "map name ?qs ! i \<le> map name ?qs ! k"
    by (rule sorted_nth_mono [OF so ik kl])
  then show ?thesis using i(1,2) k by simp
qed

text \<open>
  Claim C6. When the exact match finds no product, the resolution is the first product, in
  the order in which the store enumerates the names for the loop of line 129 (ascending
  names, \<open>select_names\<close>), whose name in lower case contains the requested name in lower
  case as a substring: of the products whose name contains it, the one with the least name.
  So a requested name contained in the name of exactly one product resolves to that product,
  and a requested name contained in no stored name makes a purchase of a positive quantity
  fail with status 404 and the detail \<open>ProductNotFound\<close>, the store unchanged. The last part
  says that \<open>str_in\<close> is the substring relation.
\<close>

theorem fallback_first_substring_match:
  assumes "exact_match nm ps = Inr None"
  shows "resolve nm ps =
           Inr (find (\<lambda>p. str_in (py_lower nm) (py_lower (name p))) (sort_key name ps))
       \<and> select_names ps = map name (sort_key name ps) \<and> sorted (select_names ps)
       \<and> (resolve nm ps = Inr (Some p) \<longrightarrow>
            p \<in> set ps \<and> str_in (py_lower nm) (py_lower (name p))
            \<and> (\<forall>r\<in>set ps. str_in (py_lower nm) (py_lower (name r)) \<longrightarrow> name p \<le> name r))
       \<and> (p \<in> set ps \<and> str_in (py_lower nm) (py_lower (name p))
            \<and> (\<forall>r\<in>set ps. str_in (py_lower nm) (py_lower (name r)) \<longrightarrow> r = p)
          \<longrightarrow> resolve nm ps = Inr (Some p))
       \<and> ((\<forall>r\<in>set ps. \<not> str_in (py_lower nm) (py_lower (name r)))
            \<and> ps = products st \<and> nm = strip requested \<and> 0 < q
          \<longrightarrow> purchase w requested q st = (HTTPException 404 (ProductNotFound nm), st))
       \<and> (str_in (py_lower nm) (py_lower (name p))
            \<longleftrightarrow> (\<exists>pre suf. py_lower (name p) = pre @ py_lower nm @ suf))"
proof -
  let ?P = "\<lambda>p. str_in (py_lower nm) (py_lower (name p))"
  have r: "resolve nm ps = Inr (find ?P (sort_key name ps))"
    using assms by (simp add: resolve_def similarity_search_find)
  have l: "p \<in> set ps \<and> ?P p \<and> (\<forall>r\<in>set ps. ?P r \<longrightarrow> name p \<le> name r)"
    if "resolve nm ps = Inr (Some p)"
  proof -
    have f: "find ?P (sort_key name ps) = Some p" using that r by simp
    then have "p \<in> set (sort_key name ps)" by (rule find_mem)
    moreover have "?P p" using f by (auto simp: find_Some_iff)
    moreover have "\<forall>r\<in>set ps. ?P r \<longrightarrow> name p \<le> name r"
      using find_sorted_least [OF f] by blast
    ultimately show ?thesis by simp
  qed
  have u: "resolve nm ps = Inr (Some p)"
    if "p \<in> set ps \<and> ?P p \<and> (\<forall>r\<in>set ps. ?P r \<longrightarrow> r = p)"
  proof -
    have "find ?P (sort_key name ps) = Some p"
      using that by (intro find_unique) auto
    then show ?thesis using r by simp
  qed
  have n: "purchase w requested q st = (HTTPException 404 (ProductNotFound nm), st)"
    if "(\<forall>r\<in>set ps. \<not> ?P r) \<and> ps = products st \<and> nm = strip requested \<and> 0 < q"
  proof -
    have "find ?P (sort_key name ps) = None" using that by (auto simp: find_None_iff)
    then have "resolve nm ps = Inr None" using r by simp
    then show ?thesis using that by (simp add: purchase_def)
  qed
  show ?thesis
  proof (intro conjI impI)
    show "resolve nm ps = Inr (find ?P (sort_key name ps))" by (rule r)
  next
    show "select_names ps = map name (sort_key name ps)" by (rule select_names_def)
  next
    show "sorted (select_names ps)" by (simp add: select_names_def sorted_sort_key)
  next
    assume a: "resolve nm ps = Inr (Some p)"
    show "p \<in> set ps" using l [OF a] by blast
    show "?P p" using l [OF a] by blast
    show "\<forall>r\<in>set ps. ?P r \<longrightarrow> name p \<le> name r" using l [OF a] by blast
  next
    assume "p \<in> set ps \<and> ?P p \<and> (\<forall>r\<in>set ps. ?P r \<longrightarrow> r = p)"
    then show "resolve nm ps = Inr (Some p)" by (rule u)
  next
    assume "(\<forall>r\<in>set ps. \<not> ?P r) \<and> ps = products st \<and> nm = strip requested \<and> 0 < q"
    then show "purchase w requested q st = (HTTPException 404 (ProductNotFound nm), st)"
      by (rule n)
  next
    show "?P p \<longleftrightarrow> (\<exists>pre suf. py_lower (name p) = pre @ py_lower nm @ suf)"
      by (rule str_in_iff)
  qed
qed

theorem fallback_first_substring_match_witness:
  "resolve (strip ''cola'') (products seeded_store) = Inr (Some coca_cola)
   \<and> purchase example_world ''Sprite'' 1 seeded_store =
       (HTTPException 404 (ProductNotFound ''Sprite''), seeded_store)
   \<and> resolve ''cola''
       [\<lparr>id_P = 1, name = ''Zebra Cola'', price = 2 :: rat, stock = 5\<rparr>,
        \<lparr>id_P = 2, name = ''Apple Cola'', price = 3, stock = 5\<rparr>]
       = Inr (Some \<lparr>id_P = 2, name = ''Apple Cola'', price = 3, stock = 5\<rparr>)
   \<and> ''Apple Cola'' \<le> ''Zebra Cola''"
proof -
  have x: "exact_match (strip ''cola'') (products seeded_store) = Inr None"
    by (simp add: exact_match_def ex_defs str_defs)
  have u: "coca_cola \<in> set (products seeded_store)
           \<and> str_in (py_lower (strip ''cola'')) (py_lower (name coca_cola))
           \<and> (\<forall>r\<in>set (products seeded_store).
                 str_in (py_lower (strip ''cola'')) (py_lower (name r)) \<longrightarrow> r = coca_cola)"
    by (simp add: ex_defs str_defs)
  have 1: "resolve (strip ''cola'') (products seeded_store) = Inr (Some coca_cola)"
    using fallback_first_substring_match [OF x, of coca_cola] u by blast
  have y: "exact_match (strip ''Sprite'') (products seeded_store) = Inr None"
    by (simp add: exact_match_def ex_defs str_defs)
  have n: "(\<forall>r\<in>set (products seeded_store).
              \<not> str_in (py_lower (strip ''Sprite'')) (py_lower (name r)))
           \<and> products seeded_store = products seeded_store
           \<and> strip ''Sprite'' = strip ''Sprite'' \<and> 0 < (1::int)"
    by (simp add: ex_defs str_defs)
  have "purchase example_world ''Sprite'' 1 seeded_store =
       (HTTPException 404 (ProductNotFound (strip ''Sprite'')), seeded_store)"
    using fallback_first_substring_match [OF y, of _ seeded_store "''Sprite''" 1 example_world] n
    by blast
  then have 2: "purchase example_world ''Sprite'' 1 seeded_store =
       (HTTPException 404 (ProductNotFound ''Sprite''), seeded_store)"
    by (simp add: str_defs)
  let ?z = "\<lparr>id_P = 1, name = ''Zebra Cola'', price = 2 :: rat, stock = 5\<rparr>"
  let ?a = "\<lparr>id_P = 2, name = ''Apple Cola'', price = 3 :: rat, stock = 5\<rparr>"
  have z: "exact_match ''cola'' [?z, ?a] = Inr None"
    by (simp add: exact_match_def str_defs)
  have "resolve ''cola'' [?z, ?a] =
          Inr (find (\<lambda>p. str_in (py_lower ''cola'') (py_lower (name p)))
                 (sort_key name [?z, ?a]))"
    using fallback_first_substring_match [OF z] by blast
  then have 3: "resolve ''cola'' [?z, ?a] = Inr (Some ?a)"
    by (simp add: str_defs)
  have 4: "''Apple Cola'' \<le> ''Zebra Cola''" by simp
  show ?thesis using 1 2 3 4 by blast
qed

lemma sqlite_lower_char_idem: "sqlite_lower_char (sqlite_lower_char c) = sqlite_lower_char c"
  by (simp add: sqlite_lower_char_def Let_def)

lemma sqlite_lower_char_not_wildcard:
  "sqlite_lower_char c = CHR ''%'' \<Longrightarrow> c = CHR ''%''"
  "sqlite_lower_char c = CHR ''_'' \<Longrightarrow> c = CHR ''_''"
  by (auto simp: sqlite_lower_char_def Let_def char_of_eq_iff take_bit_nat_eq_self split: if_splits)

lemma sqlite_lower_char_nul: "sqlite_lower_char c \<noteq> CHR 0x00 \<longleftrightarrow> c \<noteq> CHR 0x00"
  by (auto simp: sqlite_lower_char_def Let_def char_of_eq_iff take_bit_nat_eq_self split: if_splits)

lemma sqlite_lower_char_ascii:
  "(of_char (sqlite_lower_char c) :: nat) < 128 \<longleftrightarrow> (of_char c :: nat) < 128"
  by (auto simp: sqlite_lower_char_def Let_def)

lemma sqlite_lower_no_wildcard:
  "CHR ''%'' \<notin> set s \<Longrightarrow> CHR ''%'' \<notin> set (sqlite_lower s)"
  "CHR ''_'' \<notin> set s \<Longrightarrow> CHR ''_'' \<notin> set (sqlite_lower s)"
proof -
  show "CHR ''%'' \<notin> set s \<Longrightarrow> CHR ''%'' \<notin> set (sqlite_lower s)"
    using sqlite_lower_char_not_wildcard(1) by (fastforce simp: sqlite_lower_def)
  show "CHR ''_'' \<notin> set s \<Longrightarrow> CHR ''_'' \<notin> set (sqlite_lower s)"
    using sqlite_lower_char_not_wildcard(2) by (fastforce simp: sqlite_lower_def)
qed

lemma like_without_wildcards:
  "CHR ''%'' \<notin> set pat \<Longrightarrow> CHR ''_'' \<notin> set pat \<Longrightarrow>
   sqlite_like pat s \<longleftrightarrow> sqlite_lower pat = sqlite_lower s"
  by (induction pat s rule: sqlite_like.induct) (auto simp: sqlite_lower_def)

lemma sqlite_lower_idem: "sqlite_lower (sqlite_lower s) = sqlite_lower s"
  by (simp add: sqlite_lower_def sqlite_lower_char_idem)

lemma c_string_lower: "c_string (sqlite_lower s) = sqlite_lower (c_string s)"
  by (simp add: c_string_def sqlite_lower_def takeWhile_map comp_def sqlite_lower_char_nul)

lemma c_string_no_nul: "CHR 0x00 \<notin> set s \<Longrightarrow> c_string s = s"
  by (simp add: c_string_def takeWhile_eq_all_conv) blast

lemma utf8_length_lower: "utf8_length (sqlite_lower s) = utf8_length s"
  by (simp add: utf8_length_def sqlite_lower_def comp_def sqlite_lower_char_ascii)

lemma strip_surrounding:
  assumes "list_all py_isspace l" "list_all py_isspace r"
    and "v \<noteq> []" "\<not> py_isspace (hd v)" "\<not> py_isspace (last v)"
  shows "strip (l @ v @ r) = v"
proof -
  have a: "dropWhile py_isspace (l @ v @ r) = v @ r"
    using assms(1,3,4) by (cases v) (auto simp: list_all_iff dropWhile_append)
  have b: "dropWhile py_isspace (rev r @ rev v) = rev v"
    using assms(2,3,5) by (cases v rule: rev_cases) (auto simp: list_all_iff dropWhile_append)
  show ?thesis by (simp add: strip_def a b)
qed

lemma pattern_too_complex:
  "50000 < utf8_length nm \<Longrightarrow>
   exact_match nm (p # ps) =
     Inl (OtherException ''OperationalError'' ''LIKE or GLOB pattern too complex'')"
  by (simp add: exact_match_def utf8_length_lower)

text \<open>
  Claim C5, as stated, fails: the exact match does not return the product named \<open>n\<close> for
  every variant of a stored name \<open>n\<close>. Three stores show it. A stored name with the
  wildcard \<open>_\<close> requested as it is written matches an earlier product. Of two stored names
  that differ in case only, the first is returned for both. And the variant in capitals of
  the seeded name with an accented letter, which Python folds to the same lower-case text,
  is not matched, since SQLite folds the letters \<open>A\<close>..\<open>Z\<close> only.
\<close>

theorem exact_match_variant_counterexample:
  "exact_match (strip ''C_la'')
     [\<lparr>id_P = 1, name = ''Cola'', price = 2 :: rat, stock = 5\<rparr>,
      \<lparr>id_P = 2, name = ''C_la'', price = 3, stock = 5\<rparr>]
     = Inr (Some \<lparr>id_P = 1, name = ''Cola'', price = 2, stock = 5\<rparr>)
   \<and> exact_match (strip ''Pepsi'')
     [\<lparr>id_P = 1, name = ''pepsi'', price = 2 :: rat, stock = 5\<rparr>,
      \<lparr>id_P = 2, name = ''Pepsi'', price = 3, stock = 5\<rparr>]
     = Inr (Some \<lparr>id_P = 1, name = ''pepsi'', price = 2, stock = 5\<rparr>)
   \<and> py_lower (''GUARAN'' @ [CHR 0xC1]) = py_lower (name guarana)
   \<and> exact_match (strip (''GUARAN'' @ [CHR 0xC1])) (products seeded_store) = Inr None"
  by (simp add: exact_match_def ex_defs str_defs)

text \<open>
  Claim C5, amended. Let \<open>n\<close> be the name of a stored product that contains neither \<open>%\<close>
  nor \<open>_\<close> nor a NUL character and has at most 50000 bytes, and let the requested name,
  once stripped of surrounding white space, equal \<open>n\<close> up to the case of the letters
  \<open>A\<close>..\<open>Z\<close>. Then the exact match succeeds and returns the first product of the store whose
  name, read up to its first NUL character, equals \<open>n\<close> up to that case; it is the product
  named \<open>n\<close> when no other stored product has such a name. By \<open>strip_surrounding\<close> the
  requests covered include every such variant of \<open>n\<close> with white space added before and
  after it.
\<close>

theorem exact_match_ascii_case_variant:
  assumes "p \<in> set ps"
    and "CHR ''%'' \<notin> set (name p)" and "CHR ''_'' \<notin> set (name p)"
    and "CHR 0x00 \<notin> set (name p)" and "utf8_length (name p) \<le> 50000"
    and "sqlite_lower (strip requested) = sqlite_lower (name p)"
  shows "exact_match (strip requested) ps =
           Inr (find (\<lambda>r. sqlite_lower (c_string (name r)) = sqlite_lower (name p)) ps)
       \<and> (\<exists>r. exact_match (strip requested) ps = Inr (Some r) \<and> r \<in> set ps
              \<and> sqlite_lower (c_string (name r)) = sqlite_lower (name p))
       \<and> ((\<forall>r\<in>set ps. sqlite_lower (c_string (name r)) = sqlite_lower (name p) \<longrightarrow> r = p)
            \<longrightarrow> exact_match (strip requested) ps = Inr (Some p)
              \<and> resolve (strip requested) ps = Inr (Some p))"
proof -
  let ?P = "\<lambda>r. sqlite_lower (c_string (name r)) = sqlite_lower (name p)"
  have nw: "CHR ''%'' \<notin> set (sqlite_lower (name p))" "CHR ''_'' \<notin> set (sqlite_lower (name p))"
    using assms(2,3) by (simp_all add: sqlite_lower_no_wildcard)
  have pat: "c_string (sqlite_lower (strip requested)) = sqlite_lower (name p)"
    unfolding assms(6) c_string_lower c_string_no_nul [OF assms(4)] ..
  have len: "\<not> 50000 < utf8_length (sqlite_lower (strip requested))"
    unfolding assms(6) utf8_length_lower using assms(5) by simp
  have l: "sqlite_like (sqlite_lower (name p)) (c_string (sqlite_lower (name r))) \<longleftrightarrow> ?P r" for r
  proof -
    have "sqlite_like (sqlite_lower (name p)) (sqlite_lower (c_string (name r))) \<longleftrightarrow>
            sqlite_lower (sqlite_lower (name p)) = sqlite_lower (sqlite_lower (c_string (name r)))"
      by (rule like_without_wildcards [OF nw])
    then show ?thesis unfolding sqlite_lower_idem c_string_lower by (rule trans) (rule eq_commute)
  qed
  have e: "exact_match (strip requested) ps = Inr (find ?P ps)"
    using len by (simp add: exact_match_def pat l)
  have pp: "?P p" by (simp add: c_string_no_nul [OF assms(4)])
  have "find ?P ps \<noteq> None" using assms(1) pp unfolding find_None_iff by blast
  then obtain r where f: "find ?P ps = Some r" by blast
  have m: "r \<in> set ps \<and> ?P r"
  proof
    show "r \<in> set ps" using f by (rule find_mem)
    show "?P r" using f unfolding find_Some_iff by blast
  qed
  have u: "exact_match (strip requested) ps = Inr (Some p)
           \<and> resolve (strip requested) ps = Inr (Some p)"
    if "\<forall>r\<in>set ps. ?P r \<longrightarrow> r = p"
  proof -
    have "r = p" using that m by blast
    then show ?thesis using e f by (simp add: resolve_def)
  qed
  show ?thesis
  proof (intro conjI impI)
    show "exact_match (strip requested) ps = Inr (find ?P ps)" by (rule e)
  next
    show "\<exists>r. exact_match (strip requested) ps = Inr (Some r) \<and> r \<in> set ps \<and> ?P r"
      using e f m by (intro exI [of _ r]) simp
  next
    assume a: "\<forall>r\<in>set ps. ?P r \<longrightarrow> r = p"
    show "exact_match (strip requested) ps = Inr (Some p)" using u [OF a] ..
    show "resolve (strip requested) ps = Inr (Some p)" using u [OF a] ..
  qed
qed

theorem exact_match_ascii_case_variant_witness:
  "exact_match (strip ''  pEPSI  '') (products seeded_store) = Inr (Some pepsi)
   \<and> resolve (strip ''  pEPSI  '') (products seeded_store) = Inr (Some pepsi)
   \<and> exact_match (strip ''pepsi'')
       [\<lparr>id_P = 1, name = ''Pepsi'' @ [CHR 0x00] @ ''X'', price = 2 :: rat, stock = 5\<rparr>,
        \<lparr>id_P = 2, name = ''Pepsi'', price = 3, stock = 5\<rparr>]
       = Inr (Some \<lparr>id_P = 1, name = ''Pepsi'' @ [CHR 0x00] @ ''X'', price = 2, stock = 5\<rparr>)"
proof -
  have a: "pepsi \<in> set (products seeded_store)" by (simp add: seeded_store_def)
  have b: "CHR ''%'' \<notin> set (name pepsi)" and c: "CHR ''_'' \<notin> set (name pepsi)"
    and z: "CHR 0x00 \<notin> set (name pepsi)" and n: "utf8_length (name pepsi) \<le> 50000"
    by (simp_all add: pepsi_def utf8_length_def)
  have d: "sqlite_lower (strip ''  pEPSI  '') = sqlite_lower (name pepsi)"
    by (simp add: pepsi_def str_defs)
  have e: "\<forall>r\<in>set (products seeded_store).
             sqlite_lower (c_string (name r)) = sqlite_lower (name pepsi) \<longrightarrow> r = pepsi"
    by (simp add: ex_defs str_defs)
  have 1: "exact_match (strip ''  pEPSI  '') (products seeded_store) = Inr (Some pepsi)
           \<and> resolve (strip ''  pEPSI  '') (products seeded_store) = Inr (Some pepsi)"
    using exact_match_ascii_case_variant [OF a b c z n d] e by blast
  let ?x = "\<lparr>id_P = 1, name = ''Pepsi'' @ [CHR 0x00] @ ''X'', price = 2 :: rat, stock = 5\<rparr>"
  let ?y = "\<lparr>id_P = 2, name = ''Pepsi'', price = 3 :: rat, stock = 5\<rparr>"
  have a': "?y \<in> set [?x, ?y]" by simp
  have b': "CHR ''%'' \<notin> set (name ?y)" and c': "CHR ''_'' \<notin> set (name ?y)"
    and z': "CHR 0x00 \<notin> set (name ?y)" and n': "utf8_length (name ?y) \<le> 50000"
    by (simp_all add: utf8_length_def)
  have d': "sqlite_lower (strip ''pepsi'') = sqlite_lower (name ?y)"
    by (simp add: str_defs)
  have "exact_match (strip ''pepsi'') [?x, ?y] =
          Inr (find (\<lambda>r. sqlite_lower (c_string (name r)) = sqlite_lower (name ?y)) [?x, ?y])"
    using exact_match_ascii_case_variant [OF a' b' c' z' n' d'] by blast
  then have 2: "exact_match (strip ''pepsi'') [?x, ?y] = Inr (Some ?x)"
    by (simp add: str_defs)
  show ?thesis using 1 2 by simp
qed

lemma like_percent: "sqlite_like ''%'' s"
  by (induction s) simp_all

lemma exact_match_percent: "exact_match ''%'' (p # ps) = Inr (Some p)"
  by (simp add: exact_match_def sqlite_lower_def sqlite_lower_char_def c_string_def
      utf8_length_def like_percent)

text \<open>
  Claim C10. The exact match treats the requested name as a \<open>LIKE\<close> pattern: the request
  \<open>%\<close> resolves to the first product of any store that is not empty, here to the seeded
  product \<open>Coca-Cola\<close>, whose name does not equal \<open>%\<close> in any case folding, and a purchase
  of it goes through; the request \<open>P_psi\<close> resolves to \<open>Pepsi\<close>.
\<close>

theorem like_wildcard_matches_other_product:
  "exact_match (strip ''%'') (products seeded_store) = Inr (Some coca_cola)
   \<and> CHR ''%'' \<in> set (strip ''%'')
   \<and> py_lower (name coca_cola) \<noteq> py_lower (strip ''%'')
   \<and> sqlite_lower (name coca_cola) \<noteq> sqlite_lower (strip ''%'')
   \<and> exact_match ''%'' (p # ps) = Inr (Some p)
   \<and> exact_match (strip ''P_psi'') (products seeded_store) = Inr (Some pepsi)
   \<and> purchase example_world ''%'' 1 seeded_store =
       (Success 99 (Some (coca_cola\<lparr>stock := 99\<rparr>)) None,
        \<lparr>products = [coca_cola\<lparr>stock := 99\<rparr>, pepsi, guarana],
         transactions =
           [\<lparr>id_T = 1, product_id = 1, quantity_T = 1, total_price = 5 / 2, timestamp = 0\<rparr>]\<rparr>)"
proof -
  have g: "exact_match ''%'' (p # ps) = Inr (Some p)" by (rule exact_match_percent)
  have s: "strip ''%'' = ''%''" by (simp add: str_defs)
  have r: "resolve ''%'' (products seeded_store) = Inr (Some coca_cola)"
    by (simp add: resolve_def seeded_store_def exact_match_percent)
  have pu: "purchase example_world ''%'' 1 seeded_store =
       (Success 99 (Some (coca_cola\<lparr>stock := 99\<rparr>)) None,
        \<lparr>products = [coca_cola\<lparr>stock := 99\<rparr>, pepsi, guarana],
         transactions =
           [\<lparr>id_T = 1, product_id = 1, quantity_T = 1, total_price = 5 / 2, timestamp = 0\<rparr>]\<rparr>)"
    by (simp add: purchase_def s r Let_def next_id_def commit_def)
      (simp add: ex_defs)
  have e: "exact_match (strip ''P_psi'') (products seeded_store) = Inr (Some pepsi)"
    by (simp add: exact_match_def ex_defs str_defs)
  have c: "exact_match (strip ''%'') (products seeded_store) = Inr (Some coca_cola)"
    unfolding s by (simp add: seeded_store_def exact_match_percent)
  have d: "py_lower (name coca_cola) \<noteq> py_lower (strip ''%'')"
          "sqlite_lower (name coca_cola) \<noteq> sqlite_lower (strip ''%'')"
    by (simp_all add: coca_cola_def str_defs)
  show ?thesis using c d g e pu s by simp
qed

end
